theory Spec2Isabelle
  imports Main
begin

section \<open>The connection profile validator (composer-validate/lib/profileValidator.js)\<close>

subsection \<open>Parsed profiles as JavaScript data\<close>

text \<open>
  A profile is what \<^verbatim>\<open>JSON.parse\<close> or \<^verbatim>\<open>yaml.safeLoad\<close> returns: plain data. A number is
  kept as the text JavaScript prints for it, so no floating point arithmetic is needed; an
  object is the list of its own properties in enumeration order, with distinct keys.
  \<^verbatim>\<open>undefined\<close> is \<open>None\<close> of \<open>json option\<close>.
\<close>

datatype json =
    JNull
  | JBool bool
  | JNum string
  | JStr string
  | JArr "json list"
  | JObj "(string \<times> json) list"

datatype exn =
    Error string
  | TypeError string
  | SyntaxError string
  | YAMLException string

text \<open>The module's state: its \<^verbatim>\<open>errorList\<close> array, and what it has printed on the console.\<close>

datatype log_entry = Line string | Lines "string list"

record module_state =
  errorList :: "string list"
  console :: "log_entry list"

text \<open>
  What the module takes from its runtime and from the packages it requires: \<^verbatim>\<open>path\<close>,
  \<^verbatim>\<open>fs\<close>, \<^verbatim>\<open>JSON\<close>, \<^verbatim>\<open>js-yaml\<close>, \<^verbatim>\<open>valid-url\<close> (whose \<^verbatim>\<open>isUri\<close> says whether it
  returned a truthy value, and throws on some values that are not strings), the conversion
  of a value that is not a string to a string (it can throw), and the properties a value has
  without owning
  them (\<^verbatim>\<open>length\<close> of a string, \<^verbatim>\<open>toString\<close> of every object, ...), of which the validator
  only ever tests the truth value.
\<close>

record env =
  resolve :: "string \<Rightarrow> string"
  readFile :: "string \<Rightarrow> exn + string"
  parseJSON :: "string \<Rightarrow> exn + json"
  safeLoad :: "string \<Rightarrow> exn + json option"
  isUri :: "json option \<Rightarrow> exn + bool"
  toText :: "json \<Rightarrow> exn + string"
  builtinProp :: "json \<Rightarrow> string \<Rightarrow> bool"

text \<open>\<^verbatim>\<open>!v\<close> is \<open>\<not> truthy v\<close>.\<close>

fun truthy :: "json option \<Rightarrow> bool" where
  "truthy None = False"
| "truthy (Some JNull) = False"
| "truthy (Some (JBool b)) = b"
| "truthy (Some (JNum n)) = (n \<noteq> ''0'' \<and> n \<noteq> ''NaN'')"
| "truthy (Some (JStr s)) = (s \<noteq> [])"
| "truthy (Some (JArr xs)) = True"
| "truthy (Some (JObj kvs)) = True"

text \<open>
  \<^verbatim>\<open>v.key\<close> for the keys the validator writes out (\<^verbatim>\<open>name\<close>, \<^verbatim>\<open>client\<close>, ...): none
  of them is a property of a prototype, so only an object's own properties answer.
\<close>

definition getProp :: "json option \<Rightarrow> string \<Rightarrow> exn + json option" where
  "getProp v key =
     (case v of
        None \<Rightarrow> Inl (TypeError (''Cannot read property '' @ key @ '' of undefined''))
      | Some JNull \<Rightarrow> Inl (TypeError (''Cannot read property '' @ key @ '' of null''))
      | Some (JObj kvs) \<Rightarrow> Inr (map_of kvs key)
      | Some _ \<Rightarrow> Inr None)"

text \<open>String conversion, as \<^verbatim>\<open>'...' + v\<close>, \<^verbatim>\<open>regexp.test(v)\<close> and \<^verbatim>\<open>o[v]\<close> do it.\<close>

definition toString :: "env \<Rightarrow> json option \<Rightarrow> exn + string" where
  "toString e v =
     (case v of
        None \<Rightarrow> Inr ''undefined''
      | Some (JStr s) \<Rightarrow> Inr s
      | Some x \<Rightarrow> toText e x)"

text \<open>
  \<^verbatim>\<open>o[key]\<close> for a computed key: \<^verbatim>\<open>o\<close> must not be \<^verbatim>\<open>undefined\<close> or \<^verbatim>\<open>null\<close>,
  which is checked before the key is converted to a string; then own properties answer
  first, and what the runtime provides after them.
\<close>

definition requireObjectCoercible :: "json option \<Rightarrow> exn + json" where
  "requireObjectCoercible v =
     (case v of
        None \<Rightarrow> Inl (TypeError ''Cannot read property of undefined'')
      | Some JNull \<Rightarrow> Inl (TypeError ''Cannot read property of null'')
      | Some x \<Rightarrow> Inr x)"

definition truthyAt :: "env \<Rightarrow> json \<Rightarrow> string \<Rightarrow> bool" where
  "truthyAt e v key =
     (case v of
        JObj kvs \<Rightarrow>
          (case map_of kvs key of
             Some x \<Rightarrow> truthy (Some x)
           | None \<Rightarrow> builtinProp e (JObj kvs) key)
      | x \<Rightarrow> builtinProp e x key)"

fun decimal :: "nat \<Rightarrow> string" where
  "decimal n =
     (if n < 10 then [''0123456789'' ! n]
      else decimal (n div 10) @ [''0123456789'' ! (n mod 10)])"

text \<open>\<^verbatim>\<open>Object.keys(v)\<close> paired with \<^verbatim>\<open>v[key]\<close> for each of the keys.\<close>

definition ownEntries :: "json option \<Rightarrow> exn + (string \<times> json) list" where
  "ownEntries v =
     (case v of
        None \<Rightarrow> Inl (TypeError ''Cannot convert undefined or null to object'')
      | Some JNull \<Rightarrow> Inl (TypeError ''Cannot convert undefined or null to object'')
      | Some (JObj kvs) \<Rightarrow> Inr kvs
      | Some (JArr xs) \<Rightarrow> Inr (zip (map decimal [0..<length xs]) xs)
      | Some (JStr s) \<Rightarrow> Inr (zip (map decimal [0..<length s]) (map (\<lambda>c. JStr [c]) s))
      | Some _ \<Rightarrow> Inr [])"

subsection \<open>Strings\<close>

definition toLowerCase :: "string \<Rightarrow> string" where
  "toLowerCase s =
     map (\<lambda>c. case map_of (zip ''ABCDEFGHIJKLMNOPQRSTUVWXYZ'' ''abcdefghijklmnopqrstuvwxyz'') c of
                 Some l \<Rightarrow> l | None \<Rightarrow> c) s"

definition endsWith :: "string \<Rightarrow> string \<Rightarrow> bool" where
  "endsWith s suffix =
     (length suffix \<le> length s \<and> drop (length s - length suffix) s = suffix)"

text \<open>
  \<^verbatim>\<open>RegExp(/^[a-z0-9]+$/i).test(s)\<close>: one or more characters, each a letter of either case
  or a digit, and nothing else from the start of the string to its end.
\<close>

definition alphanumerics :: "char list" where
  "alphanumerics = ''abcdefghijklmnopqrstuvwxyzABCDEFGHIJKLMNOPQRSTUVWXYZ0123456789''"

definition regexp_test :: "string \<Rightarrow> bool" where
  "regexp_test s = (s \<noteq> [] \<and> list_all (\<lambda>c. c \<in> set alphanumerics) s)"

subsection \<open>The module\<close>

definition push :: "string \<Rightarrow> module_state \<Rightarrow> module_state" where
  "push msg st = st\<lparr>errorList := errorList st @ [msg]\<rparr>"

definition console_log :: "log_entry \<Rightarrow> module_state \<Rightarrow> module_state" where
  "console_log l st = st\<lparr>console := console st @ [l]\<rparr>"

type_synonym rule = "json option \<Rightarrow> module_state \<Rightarrow> exn option \<times> module_state"

definition validateInput :: "env \<Rightarrow> string \<Rightarrow> exn + string" where
  "validateInput e filename =
     (if filename = [] then Inl (Error ''Error: no file name specified'')
      else
        let isJSON = endsWith (toLowerCase filename) ''json'';
            isYAML = endsWith (toLowerCase filename) ''yaml''
        in if \<not> isJSON \<and> \<not> isYAML
           then Inl (Error ''Usage ERROR: please supply a JSON or YAML connection profile'')
           else Inr (resolve e filename))"

definition loadProfile :: "env \<Rightarrow> string \<Rightarrow> exn + json option" where
  "loadProfile e inputPath =
     (let filePath = resolve e inputPath in
      if endsWith (toLowerCase filePath) ''json''
      then (case readFile e filePath of
              Inl x \<Rightarrow> Inl x
            | Inr content \<Rightarrow>
                (case parseJSON e content of Inl x \<Rightarrow> Inl x | Inr v \<Rightarrow> Inr (Some v)))
      else (case readFile e filePath of
              Inl x \<Rightarrow> Inl x
            | Inr content \<Rightarrow> safeLoad e content))"

definition profileHasValidNameProperty :: "env \<Rightarrow> rule" where
  "profileHasValidNameProperty e profile st =
     (case getProp profile ''name'' of
        Inl x \<Rightarrow> (Some x, st)
      | Inr name \<Rightarrow>
          if \<not> truthy name then (None, push ''profile does not have a name property'' st)
          else
            (case toString e name of
               Inl x \<Rightarrow> (Some x, st)
             | Inr s \<Rightarrow>
                 if \<not> regexp_test s
                 then (None, push (''profile name property value is not valid for Composer: '' @ s) st)
                 else (None, st)))"

definition profileHasValidXTypeProperty :: "env \<Rightarrow> rule" where
  "profileHasValidXTypeProperty e profile st =
     (case getProp profile ''x-type'' of
        Inl x \<Rightarrow> (Some x, st)
      | Inr xtype \<Rightarrow>
          if \<not> truthy xtype then (None, push ''profile does not have an x-type property'' st)
          else if xtype \<notin> set [Some (JStr ''hlfv1''), Some (JStr ''hlfv11'')]
          then (case toString e xtype of
                  Inl x \<Rightarrow> (Some x, st)
                | Inr s \<Rightarrow>
                    (None, push (''profile x-type property value is not valid for Composer: '' @ s) st))
          else (None, st))"

text \<open>One \<^verbatim>\<open>if(!profile.section) { errorList.push(msg); }\<close> after another.\<close>

fun sections :: "(string \<times> string) list \<Rightarrow> rule" where
  "sections [] profile st = (None, st)"
| "sections ((key, msg) # rest) profile st =
     (case getProp profile key of
        Inl x \<Rightarrow> (Some x, st)
      | Inr v \<Rightarrow> sections rest profile (if \<not> truthy v then push msg st else st))"

definition baseSectionsExist :: "rule" where
  "baseSectionsExist =
     sections
       [(''client'', ''Profile does not specify a client''),
        (''channels'', ''Profile does not specify any channels''),
        (''certificateAuthorities'', ''Profile does not specify any certificateAuthorities''),
        (''orderers'', ''Profile does not specify any orderers''),
        (''organizations'', ''Profile does not specify any organizations''),
        (''peers'', ''Profile does not specify any peers'')]"

definition clientValidation :: "env \<Rightarrow> rule" where
  "clientValidation e profile st =
     (case getProp profile ''client'' of
        Inl x \<Rightarrow> (Some x, st)
      | Inr client \<Rightarrow>
          (case getProp client ''organization'' of
             Inl x \<Rightarrow> (Some x, st)
           | Inr org \<Rightarrow>
               if \<not> truthy org
               then (None, push ''Profile does not specify an owning organization for the client'' st)
               else
                 (case getProp profile ''organizations'' of
                    Inl x \<Rightarrow> (Some x, st)
                  | Inr organizations \<Rightarrow>
                      (case requireObjectCoercible organizations of
                         Inl x \<Rightarrow> (Some x, st)
                       | Inr base \<Rightarrow>
                           (case toString e org of
                              Inl x \<Rightarrow> (Some x, st)
                            | Inr key \<Rightarrow>
                                if \<not> truthyAt e base key
                                then (None, push (''Profile client specfies an organization that is not included in the list of organizations: '' @ key) st)
                                else (None, st))))))"

text \<open>The body of the \<^verbatim>\<open>forEach\<close> over \<^verbatim>\<open>Object.keys(orderers)\<close>, for one key.\<close>

definition ordererCheck :: "env \<Rightarrow> string \<times> json \<Rightarrow> module_state \<Rightarrow> exn option \<times> module_state" where
  "ordererCheck e entry st =
     (case ownEntries (Some (snd entry)) of
        Inl x \<Rightarrow> (Some x, st)
      | Inr props \<Rightarrow>
          if ''url'' \<notin> set (map fst props)
          then (None, push (''Orderer does not have a url property: '' @ fst entry) st)
          else
            (case getProp (Some (snd entry)) ''url'' of
               Inl x \<Rightarrow> (Some x, st)
             | Inr suspect \<Rightarrow>
                 (case isUri e suspect of
                    Inl x \<Rightarrow> (Some x, st)
                  | Inr valid \<Rightarrow>
                      if \<not> valid
                      then (case toString e suspect of
                              Inl x \<Rightarrow> (Some x, console_log (Line ''NOT URI'') st)
                            | Inr s \<Rightarrow>
                                (None, push (''Orderer '' @ fst entry @ '' does not have a valid url property: '' @ s)
                                         (console_log (Line ''NOT URI'') st)))
                      else (None, st))))"

fun forEach :: "('a \<Rightarrow> module_state \<Rightarrow> exn option \<times> module_state) \<Rightarrow> 'a list \<Rightarrow>
    module_state \<Rightarrow> exn option \<times> module_state" where
  "forEach f [] st = (None, st)"
| "forEach f (x # xs) st =
     (case f x st of
        (Some err, st') \<Rightarrow> (Some err, st')
      | (None, st') \<Rightarrow> forEach f xs st')"

definition orderersValidation :: "env \<Rightarrow> rule" where
  "orderersValidation e profile st =
     (case getProp profile ''orderers'' of
        Inl x \<Rightarrow> (Some x, st)
      | Inr orderers \<Rightarrow>
          (case ownEntries orderers of
             Inl x \<Rightarrow> (Some x, st)
           | Inr entries \<Rightarrow>
               if length entries = 0
               then (None, push ''Profile does not specify any orderers'' st)
               else forEach (ordererCheck e) entries st))"

text \<open>The \<^verbatim>\<open>rules\<close> map, in insertion order, which is the order \<^verbatim>\<open>forEach\<close> visits.\<close>

definition rules :: "env \<Rightarrow> (string \<times> rule) list" where
  "rules e =
     [(''profileHasValidNameProperty'', profileHasValidNameProperty e),
      (''profileHasValidXTypeProperty'', profileHasValidXTypeProperty e),
      (''baseSectionsExist'', baseSectionsExist),
      (''clientValidation'', clientValidation e),
      (''orderersValidation'', orderersValidation e)]"

definition applyRule :: "rule \<Rightarrow> json option \<Rightarrow> module_state \<Rightarrow> exn option \<times> module_state" where
  "applyRule r profile st = r profile st"

definition applyRules :: "env \<Rightarrow> json option \<Rightarrow> module_state \<Rightarrow> exn option \<times> module_state" where
  "applyRules e profile st = forEach (\<lambda>r. applyRule r profile) (map snd (rules e)) st"

text \<open>
  \<^verbatim>\<open>validateProfile\<close>. An exception leaves the module's state as it was when it was
  thrown: the result is the exception, if any, and the state.
\<close>

definition validateProfile :: "env \<Rightarrow> string \<Rightarrow> module_state \<Rightarrow> exn option \<times> module_state" where
  "validateProfile e filename st =
     (case validateInput e filename of
        Inl x \<Rightarrow> (Some x, st)
      | Inr path \<Rightarrow>
          (case loadProfile e path of
             Inl x \<Rightarrow> (Some x, st)
           | Inr profile \<Rightarrow>
               (case applyRules e profile
                       (console_log (Line (''Validating profile file: '' @ filename)) st) of
                  (Some x, st') \<Rightarrow> (Some x, st')
                | (None, st') \<Rightarrow>
                    let st'' = console_log (Lines (errorList st')) st' in
                    if length (errorList st'') \<noteq> 0
                    then (None, (foldl (\<lambda>s err. console_log (Line err) s) st'' (errorList st''))
                                  \<lparr>errorList := take 0 (errorList st'')\<rparr>)
                    else (None, console_log (Line ''SUCCESS: the profile is valid'') st''))))"

subsection \<open>A runtime and a profile to run the validator on\<close>

definition demo_env :: env where
  "demo_env =
     \<lparr>resolve = (\<lambda>p. ''/home/composer/'' @ p),
      readFile = (\<lambda>p. Inr ''(contents)''),
      parseJSON = (\<lambda>content.
        Inr (JObj
          [(''name'', JStr ''test''),
           (''x-type'', JStr ''hlfv1''),
           (''client'', JObj [(''organization'', JStr ''Org1'')]),
           (''channels'', JObj []),
           (''certificateAuthorities'', JObj []),
           (''orderers'', JObj [(''orderer1'', JObj [(''url'', JStr ''grpc://localhost:7050'')])]),
           (''organizations'', JObj [(''Org1'', JObj [])]),
           (''peers'', JObj [])])),
      safeLoad = (\<lambda>content. Inr None),
      isUri = (\<lambda>v. Inr (v = Some (JStr ''grpc://localhost:7050''))),
      toText = (\<lambda>v. Inr ''[object Object]''),
      builtinProp = (\<lambda>v key. False)\<rparr>"

definition stale_state :: module_state where
  "stale_state = \<lparr>errorList = [''left over''], console = []\<rparr>"

section \<open>The JSON generator (lib/serializer/jsongenerator.js), as its tests and the specification give it\<close>

text \<open>
  The generator and the writer it drives are not among the sources; their test suite is
  (\<^verbatim>\<open>describe('JSONGenerator')\<close>, the first of the unnamed source files, whose lines the
  numbers below count). The definitions of this section follow the specification, and the
  tests decide wherever they fix what the specification leaves open or says otherwise: each
  such place is named where it occurs.
\<close>

subsection \<open>Schema, values, options and errors\<close>

text \<open>Modelled from the spec: PropertyDeclaration of section 3; the schema registry is not in the sources.\<close>

record property_decl =
  name :: string
  isArray :: bool
  isRelationship :: bool
  targetNamespace :: string
  targetTypeName :: string

text \<open>Modelled from the spec: TypeDeclaration of section 3, with its properties in declared order.\<close>

record type_decl =
  decl_namespace :: string
  decl_name :: string
  properties :: "property_decl list"

type_synonym schema_registry = "type_decl list"

text \<open>Modelled from the spec: a type's fully qualified name is \<^verbatim>\<open>namespace.name\<close>.\<close>

definition getFullyQualifiedName :: "type_decl \<Rightarrow> string" where
  "getFullyQualifiedName d = decl_namespace d @ ''.'' @ decl_name d"

text \<open>Modelled from the spec: the fully qualified name of the type a property targets.\<close>

definition getFullyQualifiedTypeName :: "property_decl \<Rightarrow> string" where
  "getFullyQualifiedTypeName pd = targetNamespace pd @ ''.'' @ targetTypeName pd"

text \<open>
  Modelled from the spec: the registry resolves a type name to its declaration
  (\<^verbatim>\<open>modelManager.getType\<close> in the tests); an unknown name is a schema resolution error of
  the caller.
\<close>

definition getType :: "schema_registry \<Rightarrow> string \<Rightarrow> type_decl option" where
  "getType reg n = find (\<lambda>d. getFullyQualifiedName d = n) reg"

text \<open>
  Modelled from the spec: RuntimeValue of section 3. A scalar is a string, or a number,
  boolean or null kept as the text to write. A Resource is a reference (an index) into the
  heap of materialized resources, because resources refer to one another in cycles.
  \<open>Other\<close> is any value outside the closed set of shapes, such as an object that is
  neither a Resource nor a Relationship, by the text that names it.
\<close>

datatype scalar = Str string | Lit string

datatype rvalue =
    Scalar scalar
  | Relationship string string string
  | Resource nat
  | Array "rvalue list"
  | Other string

text \<open>
  Modelled from the spec: a Resource of section 3 (namespace, type name, identifier and
  field values). The field list is in the order the fields were populated.
\<close>

record resource =
  namespace :: string
  typeName :: string
  ident :: string
  fieldValues :: "(string \<times> rvalue) list"

type_synonym heap = "resource list"

text \<open>Modelled from the spec: following a reference; a reference to nothing is no Resource.\<close>

definition deref :: "heap \<Rightarrow> nat \<Rightarrow> resource option" where
  "deref h a = (if a < length h then Some (h ! a) else None)"

text \<open>Modelled from the spec: the fully qualified type name \<^verbatim>\<open>namespace.typeName\<close> of a resource.\<close>

definition getFullyQualifiedType :: "resource \<Rightarrow> string" where
  "getFullyQualifiedType r = namespace r @ ''.'' @ typeName r"

text \<open>
  Modelled from the spec: the fully qualified identifier, \<^verbatim>\<open>namespace.typeName#id\<close>, as
  the tests' \<^verbatim>\<open>getFullyQualifiedIdentifier\<close> stubs return it.
\<close>

definition getFullyQualifiedIdentifier :: "resource \<Rightarrow> string" where
  "getFullyQualifiedIdentifier r = getFullyQualifiedType r @ ''#'' @ ident r"

text \<open>
  Modelled from the spec: the value of a declared property on a resource, \<open>None\<close> when
  the resource does not have the property (\<^verbatim>\<open>undefined\<close>).
\<close>

definition fieldValue :: "resource \<Rightarrow> property_decl \<Rightarrow> rvalue option" where
  "fieldValue r pd = map_of (fieldValues r) (name pd)"

text \<open>
  Modelled from the spec: the error taxonomy of section 7. The messages are the ones the
  tests match (\<^verbatim>\<open>/Unrecognised/\<close>, \<^verbatim>\<open>/Did not find a relationship/\<close>).
\<close>

datatype error =
    UnrecognisedValueError string
  | RelationshipTypeError string
  | SchemaResolutionError string

text \<open>Modelled from the spec: the options of section 6, both false by default.\<close>

record options =
  convertResourcesToRelationships :: bool
  permitResourcesForRelationships :: bool

text \<open>
  Modelled from the spec: the generator's constructor, as the tests call it
  (\<^verbatim>\<open>new JSONGenerator(convert, permit)\<close>); a missing argument is false.
\<close>

definition JSONGenerator :: "bool \<Rightarrow> bool \<Rightarrow> options" where
  "JSONGenerator convert permit =
     \<lparr>convertResourcesToRelationships = convert, permitResourcesForRelationships = permit\<rparr>"

subsection \<open>The calls a serialization makes on its context\<close>

text \<open>
  Modelled from the spec: the text sink of section 4.5, under the names the tests assert on
  the mocked writer (\<^verbatim>\<open>openObject\<close>, \<^verbatim>\<open>writeComma\<close>, \<^verbatim>\<open>writeStringValue\<close>,
  \<^verbatim>\<open>writeArrayStringValue\<close>, ...).
\<close>

datatype writer_call =
    OpenObject
  | CloseObject
  | OpenArray
  | CloseArray
  | WriteKey string
  | WriteComma
  | WriteStringValue string
  | WriteValue string
  | WriteArrayStringValue string
  | WriteArrayValue string

text \<open>
  Modelled from the spec: a serialization acts on its context only, which is the writer and
  the seen-set (\<^verbatim>\<open>seenResources\<close> in the tests). A run is the list of these calls in the
  order they are made.
\<close>

datatype context_call =
    Writer writer_call
  | SeenAdd string
  | SeenDelete string

text \<open>Modelled from the spec: running one part after another; the first error aborts the call.\<close>

fun sequence :: "(error + 'a list) list \<Rightarrow> error + 'a list" where
  "sequence [] = Inr []"
| "sequence (r # rs) =
     (case r of
        Inl e \<Rightarrow> Inl e
      | Inr xs \<Rightarrow> (case sequence rs of Inl e \<Rightarrow> Inl e | Inr ys \<Rightarrow> Inr (xs @ ys)))"

subsection \<open>The relationship resolver\<close>

text \<open>
  Modelled from the spec: the namespace rule of section 4.2, the bare identifier inside the
  declaring property's target namespace and the fully qualified identifier outside it.
\<close>

definition referenceText :: "string \<Rightarrow> string \<Rightarrow> string \<Rightarrow> string \<Rightarrow> string" where
  "referenceText declNamespace ns ty i =
     (if ns = declNamespace then i else ns @ ''.'' @ ty @ ''#'' @ i)"

text \<open>
  Modelled from the spec: \<^verbatim>\<open>relationshipText\<close> of section 4.2
  (\<^verbatim>\<open>getRelationshipText\<close> in the tests). A Resource is resolved only under
  \<^verbatim>\<open>convertResourcesToRelationships\<close>.
\<close>

definition getRelationshipText ::
    "options \<Rightarrow> heap \<Rightarrow> property_decl \<Rightarrow> rvalue \<Rightarrow> error + string" where
  "getRelationshipText opts h pd v =
     (case v of
        Relationship ns ty i \<Rightarrow> Inr (referenceText (targetNamespace pd) ns ty i)
      | Resource a \<Rightarrow>
          if convertResourcesToRelationships opts
          then (case deref h a of
                  Some r \<Rightarrow>
                    Inr (referenceText (targetNamespace pd) (namespace r) (typeName r) (ident r))
                | None \<Rightarrow> Inl (UnrecognisedValueError ''Unrecognised''))
          else Inl (RelationshipTypeError ''Did not find a relationship'')
      | _ \<Rightarrow> Inl (UnrecognisedValueError ''Unrecognised''))"

subsection \<open>The visitors\<close>

text \<open>
  The number of identifiers of the graph that are not in the seen-set: what every descent
  into a resource decreases.
\<close>

definition unseen :: "heap \<Rightarrow> string set \<Rightarrow> nat" where
  "unseen h seen = card (getFullyQualifiedIdentifier ` set h - seen)"

text \<open>
  Modelled from the spec: the composite visitor \<open>inline\<close> of section 4.4, the step of
  4.4 that writes a property name and dispatches the property's value
  (\<open>visitProperty\<close>), and the value dispatcher of 4.1 with the relationship rules of 4.3
  (\<open>dispatch\<close>). Where the tests decide:

  \<^item> The identifier is taken out of the seen-set again when the object is closed
    (\<open>SeenDelete\<close>). The expected buffer of the test of a circular array (lines 247 to
    276) inlines \<^verbatim>\<open>DOGE_3\<close> inside \<^verbatim>\<open>DOGE_2\<close> and again beside it, which a set that only
    grows cannot produce. The set on return is therefore the set on entry, and the
    functions take the set as an argument instead of returning it.
  \<^item> A back-reference is written with \<^verbatim>\<open>writeStringValue\<close>, also inside an array, where
    a pointer is written with \<^verbatim>\<open>writeArrayStringValue\<close> (lines 183 to 202) and an inlined
    resource after \<^verbatim>\<open>writeComma\<close> (lines 222 to 245): the same buffer has
    \<^verbatim>\<open>"DOGE_1""DOGE_2"\<close>.
  \<^item> The declaration a resource is inlined under is the type the property targets, for the
    discriminator as for the properties. The tests of lines 134 to 150 and 222 to 245 inline
    resources identified as \<^verbatim>\<open>org.acme.Doge#...\<close>, a type the model file does not declare,
    under properties that target \<^verbatim>\<open>MyAsset1\<close>; the test of lines 247 to 276 inlines
    resources identified as \<^verbatim>\<open>org.acme.SimpleAssetCircle#...\<close> under a property that targets
    \<^verbatim>\<open>SimpleAssetCircleArray\<close> and expects every \<^verbatim>\<open>$class\<close> to be
    \<^verbatim>\<open>org.acme.SimpleAssetCircleArray\<close>.
  \<^item> A declared property that the resource does not have raises nothing: the resources of
    the tests of lines 134 to 150 and 222 to 245 have no \<^verbatim>\<open>assetId\<close>. The tests mock the
    writer there and do not show what is written for such a property; here nothing is.
  \<^item> Under \<^verbatim>\<open>convertResourcesToRelationships\<close> a Resource that may not be inlined is
    written as its reference text instead of failing (sections 6 and 7).
  \<^item> An array inside an array is none of the shapes of section 3.

  \<open>inArray\<close> says whether the value is an element of an array;
  \<open>declNamespace\<close> and \<open>declType\<close> are the target namespace and the fully
  qualified target type of the property the resource was found under.
\<close>

function inline ::
    "options \<Rightarrow> schema_registry \<Rightarrow> heap \<Rightarrow> string set \<Rightarrow> bool \<Rightarrow> string \<Rightarrow> string \<Rightarrow> nat \<Rightarrow>
     error + context_call list"
  and visitProperty ::
    "options \<Rightarrow> schema_registry \<Rightarrow> heap \<Rightarrow> string set \<Rightarrow> property_decl \<Rightarrow> rvalue \<Rightarrow>
     error + context_call list"
  and dispatch ::
    "options \<Rightarrow> schema_registry \<Rightarrow> heap \<Rightarrow> string set \<Rightarrow> bool \<Rightarrow> property_decl \<Rightarrow> rvalue \<Rightarrow>
     error + context_call list"
where
  "inline opts reg h seen inArray declNamespace declType a =
     (case deref h a of
        None \<Rightarrow> Inl (UnrecognisedValueError ''Unrecognised'')
      | Some r \<Rightarrow>
          if getFullyQualifiedIdentifier r \<in> seen
          then Inr [Writer (WriteStringValue
                      (referenceText declNamespace (namespace r) (typeName r) (ident r)))]
          else
            (case getType reg declType of
               None \<Rightarrow> Inl (SchemaResolutionError declType)
             | Some decl \<Rightarrow>
                 (case sequence
                         (map (\<lambda>pd. case fieldValue r pd of
                                       None \<Rightarrow> Inr []
                                     | Some v \<Rightarrow>
                                         visitProperty opts reg h
                                           (insert (getFullyQualifiedIdentifier r) seen) pd v)
                              (properties decl)) of
                    Inl e \<Rightarrow> Inl e
                  | Inr body \<Rightarrow>
                      Inr ([SeenAdd (getFullyQualifiedIdentifier r)] @
                           (if inArray then [Writer WriteComma] else []) @
                           [Writer OpenObject,
                            Writer (WriteKey ''$class''),
                            Writer (WriteStringValue (getFullyQualifiedName decl))] @
                           body @
                           [Writer CloseObject,
                            SeenDelete (getFullyQualifiedIdentifier r)]))))"
| "visitProperty opts reg h seen pd v =
     (case dispatch opts reg h seen False pd v of
        Inl e \<Rightarrow> Inl e
      | Inr cs \<Rightarrow> Inr (Writer (WriteKey (name pd)) # cs))"
| "dispatch opts reg h seen inArray pd v =
     (case v of
        Scalar (Str s) \<Rightarrow>
          Inr [Writer (if inArray then WriteArrayStringValue s else WriteStringValue s)]
      | Scalar (Lit s) \<Rightarrow>
          Inr [Writer (if inArray then WriteArrayValue s else WriteValue s)]
      | Relationship ns ty i \<Rightarrow>
          (case getRelationshipText opts h pd v of
             Inl e \<Rightarrow> Inl e
           | Inr t \<Rightarrow>
               Inr [Writer (if inArray then WriteArrayStringValue t else WriteStringValue t)])
      | Resource a \<Rightarrow>
          if isRelationship pd \<and> \<not> permitResourcesForRelationships opts
          then (case getRelationshipText opts h pd v of
                  Inl e \<Rightarrow> Inl e
                | Inr t \<Rightarrow>
                    Inr [Writer (if inArray then WriteArrayStringValue t
                                 else WriteStringValue t)])
          else inline opts reg h seen inArray (targetNamespace pd)
                 (getFullyQualifiedTypeName pd) a
      | Array vs \<Rightarrow>
          if inArray then Inl (UnrecognisedValueError ''Unrecognised'')
          else
            (case sequence (map (dispatch opts reg h seen True pd) vs) of
               Inl e \<Rightarrow> Inl e
             | Inr cs \<Rightarrow> Inr ([Writer OpenArray] @ cs @ [Writer CloseArray]))
      | Other x \<Rightarrow> Inl (UnrecognisedValueError ''Unrecognised''))"
  by pat_completeness auto
termination
proof (relation "inv_image (less_than <*lex*> less_than)
    (\<lambda>x. case x of
        Inl (opts, reg, h, seen, inArray, dn, dt, a) \<Rightarrow> (unseen h seen, 0)
      | Inr (Inl (opts, reg, h, seen, pd, v)) \<Rightarrow> (unseen h seen, 2 * size v + 2)
      | Inr (Inr (opts, reg, h, seen, inArray, pd, v)) \<Rightarrow> (unseen h seen, 2 * size v + 1))",
    goal_cases)
  case 1
  show ?case by (intro wf_inv_image wf_lex_prod wf_less_than)
next
  case (2 opts reg h seen inArray declNamespace declType a r decl pd v)
  from \<open>deref h a = Some r\<close> have "r \<in> set h"
    by (auto simp: deref_def split: if_splits)
  with \<open>getFullyQualifiedIdentifier r \<notin> seen\<close>
  have "getFullyQualifiedIdentifier ` set h - insert (getFullyQualifiedIdentifier r) seen
        \<subset> getFullyQualifiedIdentifier ` set h - seen"
    by auto
  then have "unseen h (insert (getFullyQualifiedIdentifier r) seen) < unseen h seen"
    unfolding unseen_def by (intro psubset_card_mono) simp_all
  then show ?case by simp
next
  case 3
  show ?case by simp
next
  case 4
  show ?case by simp
next
  case (5 opts reg h seen inArray pd v vs x)
  from \<open>x \<in> set vs\<close> have "size x < Suc (size_list size vs)"
    by (simp add: less_Suc_eq_le size_list_estimation')
  with \<open>v = Array vs\<close> show ?case by simp
qed

text \<open>
  Modelled from the spec: the relationship property visitor of section 4.3, which is the
  entry point of the tests (\<^verbatim>\<open>visitRelationshipDeclaration(declaration, parameters)\<close> with
  the value on top of the stack): the property step at a relationship declaration.
\<close>

definition visitRelationshipDeclaration ::
    "options \<Rightarrow> schema_registry \<Rightarrow> heap \<Rightarrow> string set \<Rightarrow> property_decl \<Rightarrow> rvalue \<Rightarrow>
     error + context_call list" where
  "visitRelationshipDeclaration opts reg h seen pd v = visitProperty opts reg h seen pd v"



subsection \<open>The writer\<close>

text \<open>
  Modelled from the spec: the append-only emitter of section 4.5 (\<^verbatim>\<open>JSONWriter\<close>, not
  in the sources). One flag decides whether \<^verbatim>\<open>writeComma\<close> writes: it is set when an
  object or an array is opened and cleared by whatever is written next. This is what the two
  expected buffers of the tests require: \<^verbatim>\<open>["DOGE_1",{\<close> has its comma and
  \<^verbatim>\<open>"DOGE_1""DOGE_2"\<close> and \<^verbatim>\<open>}"DOGE_1"\<close> have none.
\<close>

record json_writer =
  buffer :: string
  firstItem :: bool

text \<open>Modelled from the spec: string literals are written between double quotes.\<close>

definition dq :: char where
  "dq = CHR 0x22"

definition quoted :: "string \<Rightarrow> string" where
  "quoted s = dq # s @ [dq]"

text \<open>Modelled from the spec: appending to the buffer, and the single separator.\<close>

definition emit :: "string \<Rightarrow> json_writer \<Rightarrow> json_writer" where
  "emit s w = w\<lparr>buffer := buffer w @ s\<rparr>"

definition writeComma :: "json_writer \<Rightarrow> json_writer" where
  "writeComma w = (if firstItem w then w\<lparr>firstItem := False\<rparr> else emit '','' w)"

text \<open>Modelled from the spec: what each call does to the writer.\<close>

fun perform :: "writer_call \<Rightarrow> json_writer \<Rightarrow> json_writer" where
  "perform OpenObject w = (emit ''{'' w)\<lparr>firstItem := True\<rparr>"
| "perform CloseObject w = (emit ''}'' w)\<lparr>firstItem := False\<rparr>"
| "perform OpenArray w = (emit ''['' w)\<lparr>firstItem := True\<rparr>"
| "perform CloseArray w = (emit '']'' w)\<lparr>firstItem := False\<rparr>"
| "perform (WriteKey k) w = emit (quoted k @ '':'') (writeComma w)"
| "perform WriteComma w = writeComma w"
| "perform (WriteStringValue v) w = (emit (quoted v) w)\<lparr>firstItem := False\<rparr>"
| "perform (WriteValue v) w = (emit v w)\<lparr>firstItem := False\<rparr>"
| "perform (WriteArrayStringValue v) w = emit (quoted v) (writeComma w)"
| "perform (WriteArrayValue v) w = emit v (writeComma w)"

text \<open>The calls of a run that go to the writer.\<close>

definition writerCalls :: "context_call list \<Rightarrow> writer_call list" where
  "writerCalls cs = concat (map (\<lambda>c. case c of Writer w \<Rightarrow> [w] | _ \<Rightarrow> []) cs)"

text \<open>Modelled from the spec: \<^verbatim>\<open>getBuffer()\<close> of a new writer after the given calls.\<close>

definition getBuffer :: "writer_call list \<Rightarrow> string" where
  "getBuffer ws = buffer (foldl (\<lambda>w c. perform c w) \<lparr>buffer = [], firstItem = True\<rparr> ws)"

definition bufferOf :: "error + context_call list \<Rightarrow> error + string" where
  "bufferOf run = (case run of Inl e \<Rightarrow> Inl e | Inr cs \<Rightarrow> Inr (getBuffer (writerCalls cs)))"

subsection \<open>serialize\<close>

text \<open>
  Modelled from the spec: \<^verbatim>\<open>serialize(root, schema, options)\<close> of section 6. The context
  is new, so the seen-set is empty; the root is a Resource and is inlined under its own type.
\<close>

definition serializeCalls ::
    "options \<Rightarrow> schema_registry \<Rightarrow> heap \<Rightarrow> nat \<Rightarrow> error + context_call list" where
  "serializeCalls opts reg h root =
     (case deref h root of
        None \<Rightarrow> Inl (UnrecognisedValueError ''Unrecognised'')
      | Some r \<Rightarrow> inline opts reg h {} False (namespace r) (getFullyQualifiedType r) root)"

text \<open>Modelled from the spec: the text that \<^verbatim>\<open>serialize\<close> returns is the writer's buffer.\<close>

definition serialize :: "options \<Rightarrow> schema_registry \<Rightarrow> heap \<Rightarrow> nat \<Rightarrow> error + string" where
  "serialize opts reg h root = bufferOf (serializeCalls opts reg h root)"

subsection \<open>The parameters of a call\<close>









subsection \<open>What a run does to the seen-set, and how deep its objects nest\<close>



text \<open>How often a run inlines an identifier.\<close>

definition inlinings :: "string \<Rightarrow> error + context_call list \<Rightarrow> nat" where
  "inlinings f run = (case run of Inl e \<Rightarrow> 0 | Inr cs \<Rightarrow> count_list cs (SeenAdd f))"

text \<open>
  The number of objects open after the calls, and the largest number of objects open at any
  moment of them, when \<open>d\<close> objects are open before.
\<close>

fun level :: "nat \<Rightarrow> writer_call list \<Rightarrow> nat" where
  "level d [] = d"
| "level d (OpenObject # ws) = level (Suc d) ws"
| "level d (CloseObject # ws) = level (d - 1) ws"
| "level d (w # ws) = level d ws"

fun peak :: "nat \<Rightarrow> writer_call list \<Rightarrow> nat" where
  "peak d [] = d"
| "peak d (OpenObject # ws) = max d (peak (Suc d) ws)"
| "peak d (CloseObject # ws) = max d (peak (d - 1) ws)"
| "peak d (w # ws) = peak d ws"

subsection \<open>The inputs of the tests\<close>

text \<open>The model file of the tests, and the four declarations the tests look up in it.\<close>

definition field :: "string \<Rightarrow> string \<Rightarrow> string \<Rightarrow> property_decl" where
  "field n ns ty =
     \<lparr>name = n, isArray = False, isRelationship = False, targetNamespace = ns,
      targetTypeName = ty\<rparr>"

definition relationship :: "string \<Rightarrow> bool \<Rightarrow> string \<Rightarrow> string \<Rightarrow> property_decl" where
  "relationship n arr ns ty =
     \<lparr>name = n, isArray = arr, isRelationship = True, targetNamespace = ns,
      targetTypeName = ty\<rparr>"

definition relationshipDeclaration1 :: property_decl where
  "relationshipDeclaration1 = relationship ''myAsset'' False ''org.acme'' ''MyAsset1''"

definition relationshipDeclaration2 :: property_decl where
  "relationshipDeclaration2 = relationship ''myAssets'' True ''org.acme'' ''MyAsset1''"

definition relationshipDeclaration3 :: property_decl where
  "relationshipDeclaration3 = relationship ''next'' False ''org.acme'' ''SimpleAssetCircle''"

definition relationshipDeclaration4 :: property_decl where
  "relationshipDeclaration4 = relationship ''next'' True ''org.acme'' ''SimpleAssetCircleArray''"

definition modelManager :: schema_registry where
  "modelManager =
     [\<lparr>decl_namespace = ''org.acme'', decl_name = ''MyAsset1'',
       properties = [field ''assetId'' [] ''String'']\<rparr>,
      \<lparr>decl_namespace = ''org.acme'', decl_name = ''MyAsset2'',
       properties = [field ''assetId'' [] ''String'', field ''integerValue'' [] ''Integer'']\<rparr>,
      \<lparr>decl_namespace = ''org.acme'', decl_name = ''MyContainerAsset1'',
       properties = [field ''assetId'' [] ''String'', field ''myAsset'' ''org.acme'' ''MyAsset1'']\<rparr>,
      \<lparr>decl_namespace = ''org.acme'', decl_name = ''MyContainerAsset1'',
       properties = [field ''assetId'' [] ''String'',
                     (field ''myAssets'' ''org.acme'' ''MyAsset1'')\<lparr>isArray := True\<rparr>]\<rparr>,
      \<lparr>decl_namespace = ''org.acme'', decl_name = ''MyTx1'',
       properties = [field ''transactionId'' [] ''String'', relationshipDeclaration1]\<rparr>,
      \<lparr>decl_namespace = ''org.acme'', decl_name = ''MyTx2'',
       properties = [field ''transactionId'' [] ''String'', relationshipDeclaration2]\<rparr>,
      \<lparr>decl_namespace = ''org.acme'', decl_name = ''SimpleAssetCircle'',
       properties = [field ''assetId'' [] ''String'', relationshipDeclaration3]\<rparr>,
      \<lparr>decl_namespace = ''org.acme'', decl_name = ''SimpleAssetCircleArray'',
       properties = [field ''assetId'' [] ''String'', relationshipDeclaration4]\<rparr>]"

text \<open>
  The mocked resources of the tests, with the namespace, identifier and fully qualified
  identifier their stubs return and the properties the tests set on them:
  \<^verbatim>\<open>DOGE_1 \<rightarrow> DOGE_2 \<rightarrow> DOGE_3 \<rightarrow> DOGE_1\<close> under \<^verbatim>\<open>next\<close>; the three of the array test,
  identified as \<^verbatim>\<open>org.acme.SimpleAssetCircle#DOGE_n\<close> as well, with
  \<^verbatim>\<open>next = [DOGE_2, DOGE_3]\<close> and so on; and the two resources identified as
  \<^verbatim>\<open>org.acme.Doge#DOGE_n\<close>, on which no property is set.
\<close>

definition asset :: "string \<Rightarrow> string \<Rightarrow> rvalue \<Rightarrow> resource" where
  "asset ty i nxt =
     \<lparr>namespace = ''org.acme'', typeName = ty, ident = i,
      fieldValues = [(''assetId'', Scalar (Str i)), (''next'', nxt)]\<rparr>"

definition circle :: heap where
  "circle =
     [asset ''SimpleAssetCircle'' ''DOGE_1'' (Resource 1),
      asset ''SimpleAssetCircle'' ''DOGE_2'' (Resource 2),
      asset ''SimpleAssetCircle'' ''DOGE_3'' (Resource 0)]"

definition circleArray :: heap where
  "circleArray =
     [asset ''SimpleAssetCircle'' ''DOGE_1'' (Array [Resource 1, Resource 2]),
      asset ''SimpleAssetCircle'' ''DOGE_2'' (Array [Resource 2, Resource 0]),
      asset ''SimpleAssetCircle'' ''DOGE_3'' (Array [Resource 0, Resource 1])]"

text \<open>
  The graph of the array test with resources that are of the type the property targets,
  \<^verbatim>\<open>org.acme.SimpleAssetCircleArray\<close>, so that \<^verbatim>\<open>serialize\<close> finds the array property
  \<^verbatim>\<open>next\<close> in the declaration of the root.
\<close>

definition circleArrayTyped :: heap where
  "circleArrayTyped =
     [asset ''SimpleAssetCircleArray'' ''DOGE_1'' (Array [Resource 1, Resource 2]),
      asset ''SimpleAssetCircleArray'' ''DOGE_2'' (Array [Resource 2, Resource 0]),
      asset ''SimpleAssetCircleArray'' ''DOGE_3'' (Array [Resource 0, Resource 1])]"

definition doges :: heap where
  "doges =
     [\<lparr>namespace = ''org.acme'', typeName = ''Doge'', ident = ''DOGE_1'', fieldValues = []\<rparr>,
      \<lparr>namespace = ''org.acme'', typeName = ''Doge'', ident = ''DOGE_2'', fieldValues = []\<rparr>]"


definition expectedCircleArray :: string where
  "expectedCircleArray =
     [dq] @ ''next'' @ [dq] @ '':[{'' @ [dq] @ ''$class'' @ [dq] @ '':'' @ [dq] @
     ''org.acme.SimpleAssetCircleArray'' @ [dq] @ '','' @ [dq] @ ''assetId'' @ [dq] @ '':'' @
     [dq] @ ''DOGE_1'' @ [dq] @ '','' @ [dq] @ ''next'' @ [dq] @ '':[{'' @ [dq] @ ''$class'' @
     [dq] @ '':'' @ [dq] @ ''org.acme.SimpleAssetCircleArray'' @ [dq] @ '','' @ [dq] @
     ''assetId'' @ [dq] @ '':'' @ [dq] @ ''DOGE_2'' @ [dq] @ '','' @ [dq] @ ''next'' @ [dq] @
     '':[{'' @ [dq] @ ''$class'' @ [dq] @ '':'' @ [dq] @ ''org.acme.SimpleAssetCircleArray'' @
     [dq] @ '','' @ [dq] @ ''assetId'' @ [dq] @ '':'' @ [dq] @ ''DOGE_3'' @ [dq] @ '','' @ [dq] @
     ''next'' @ [dq] @ '':['' @ [dq] @ ''DOGE_1'' @ [dq] @ [dq] @ ''DOGE_2'' @ [dq] @ '']}'' @
     [dq] @ ''DOGE_1'' @ [dq] @ '']},{'' @ [dq] @ ''$class'' @ [dq] @ '':'' @ [dq] @
     ''org.acme.SimpleAssetCircleArray'' @ [dq] @ '','' @ [dq] @ ''assetId'' @ [dq] @ '':'' @
     [dq] @ ''DOGE_3'' @ [dq] @ '','' @ [dq] @ ''next'' @ [dq] @ '':['' @ [dq] @ ''DOGE_1'' @
     [dq] @ '',{'' @ [dq] @ ''$class'' @ [dq] @ '':'' @ [dq] @
     ''org.acme.SimpleAssetCircleArray'' @ [dq] @ '','' @ [dq] @ ''assetId'' @ [dq] @ '':'' @
     [dq] @ ''DOGE_2'' @ [dq] @ '','' @ [dq] @ ''next'' @ [dq] @ '':['' @ [dq] @ ''DOGE_3'' @
     [dq] @ [dq] @ ''DOGE_1'' @ [dq] @ '']}]}]},{'' @ [dq] @ ''$class'' @ [dq] @ '':'' @ [dq] @
     ''org.acme.SimpleAssetCircleArray'' @ [dq] @ '','' @ [dq] @ ''assetId'' @ [dq] @ '':'' @
     [dq] @ ''DOGE_2'' @ [dq] @ '','' @ [dq] @ ''next'' @ [dq] @ '':[{'' @ [dq] @ ''$class'' @
     [dq] @ '':'' @ [dq] @ ''org.acme.SimpleAssetCircleArray'' @ [dq] @ '','' @ [dq] @
     ''assetId'' @ [dq] @ '':'' @ [dq] @ ''DOGE_3'' @ [dq] @ '','' @ [dq] @ ''next'' @ [dq] @
     '':[{'' @ [dq] @ ''$class'' @ [dq] @ '':'' @ [dq] @ ''org.acme.SimpleAssetCircleArray'' @
     [dq] @ '','' @ [dq] @ ''assetId'' @ [dq] @ '':'' @ [dq] @ ''DOGE_1'' @ [dq] @ '','' @ [dq] @
     ''next'' @ [dq] @ '':['' @ [dq] @ ''DOGE_2'' @ [dq] @ [dq] @ ''DOGE_3'' @ [dq] @ '']}'' @
     [dq] @ ''DOGE_2'' @ [dq] @ '']},{'' @ [dq] @ ''$class'' @ [dq] @ '':'' @ [dq] @
     ''org.acme.SimpleAssetCircleArray'' @ [dq] @ '','' @ [dq] @ ''assetId'' @ [dq] @ '':'' @
     [dq] @ ''DOGE_1'' @ [dq] @ '','' @ [dq] @ ''next'' @ [dq] @ '':['' @ [dq] @ ''DOGE_2'' @
     [dq] @ '',{'' @ [dq] @ ''$class'' @ [dq] @ '':'' @ [dq] @
     ''org.acme.SimpleAssetCircleArray'' @ [dq] @ '','' @ [dq] @ ''assetId'' @ [dq] @ '':'' @
     [dq] @ ''DOGE_3'' @ [dq] @ '','' @ [dq] @ ''next'' @ [dq] @ '':['' @ [dq] @ ''DOGE_1'' @
     [dq] @ [dq] @ ''DOGE_2'' @ [dq] @ '']}]}]},{'' @ [dq] @ ''$class'' @ [dq] @ '':'' @ [dq] @
     ''org.acme.SimpleAssetCircleArray'' @ [dq] @ '','' @ [dq] @ ''assetId'' @ [dq] @ '':'' @
     [dq] @ ''DOGE_3'' @ [dq] @ '','' @ [dq] @ ''next'' @ [dq] @ '':[{'' @ [dq] @ ''$class'' @
     [dq] @ '':'' @ [dq] @ ''org.acme.SimpleAssetCircleArray'' @ [dq] @ '','' @ [dq] @
     ''assetId'' @ [dq] @ '':'' @ [dq] @ ''DOGE_1'' @ [dq] @ '','' @ [dq] @ ''next'' @ [dq] @
     '':[{'' @ [dq] @ ''$class'' @ [dq] @ '':'' @ [dq] @ ''org.acme.SimpleAssetCircleArray'' @
     [dq] @ '','' @ [dq] @ ''assetId'' @ [dq] @ '':'' @ [dq] @ ''DOGE_2'' @ [dq] @ '','' @ [dq] @
     ''next'' @ [dq] @ '':['' @ [dq] @ ''DOGE_3'' @ [dq] @ [dq] @ ''DOGE_1'' @ [dq] @ '']}'' @
     [dq] @ ''DOGE_3'' @ [dq] @ '']},{'' @ [dq] @ ''$class'' @ [dq] @ '':'' @ [dq] @
     ''org.acme.SimpleAssetCircleArray'' @ [dq] @ '','' @ [dq] @ ''assetId'' @ [dq] @ '':'' @
     [dq] @ ''DOGE_2'' @ [dq] @ '','' @ [dq] @ ''next'' @ [dq] @ '':['' @ [dq] @ ''DOGE_3'' @
     [dq] @ '',{'' @ [dq] @ ''$class'' @ [dq] @ '':'' @ [dq] @
     ''org.acme.SimpleAssetCircleArray'' @ [dq] @ '','' @ [dq] @ ''assetId'' @ [dq] @ '':'' @
     [dq] @ ''DOGE_1'' @ [dq] @ '','' @ [dq] @ ''next'' @ [dq] @ '':['' @ [dq] @ ''DOGE_2'' @
     [dq] @ [dq] @ ''DOGE_3'' @ [dq] @ '']}]}]}]''"

subsection \<open>Graphs that a serialization cannot tell apart\<close>




subsection \<open>Further inputs\<close>

text \<open>A resource whose \<^verbatim>\<open>next\<close> is the resource itself.\<close>

definition selfReference :: heap where
  "selfReference = [asset ''SimpleAssetCircle'' ''DOGE_1'' (Resource 0)]"




subsection \<open>Where a traversal meets a value that is none of the shapes\<close>


text \<open>The calls that serializing the circle from \<^verbatim>\<open>DOGE_1\<close> makes.\<close>

definition circleRun :: "context_call list" where
  "circleRun =
     [SeenAdd ''org.acme.SimpleAssetCircle#DOGE_1'', Writer OpenObject,
      Writer (WriteKey ''$class''), Writer (WriteStringValue ''org.acme.SimpleAssetCircle''),
      Writer (WriteKey ''assetId''), Writer (WriteStringValue ''DOGE_1''),
      Writer (WriteKey ''next''),
      SeenAdd ''org.acme.SimpleAssetCircle#DOGE_2'', Writer OpenObject,
      Writer (WriteKey ''$class''), Writer (WriteStringValue ''org.acme.SimpleAssetCircle''),
      Writer (WriteKey ''assetId''), Writer (WriteStringValue ''DOGE_2''),
      Writer (WriteKey ''next''),
      SeenAdd ''org.acme.SimpleAssetCircle#DOGE_3'', Writer OpenObject,
      Writer (WriteKey ''$class''), Writer (WriteStringValue ''org.acme.SimpleAssetCircle''),
      Writer (WriteKey ''assetId''), Writer (WriteStringValue ''DOGE_3''),
      Writer (WriteKey ''next''), Writer (WriteStringValue ''DOGE_1''),
      Writer CloseObject, SeenDelete ''org.acme.SimpleAssetCircle#DOGE_3'',
      Writer CloseObject, SeenDelete ''org.acme.SimpleAssetCircle#DOGE_2'',
      Writer CloseObject, SeenDelete ''org.acme.SimpleAssetCircle#DOGE_1'']"

text \<open>The text of the self-referencing resource.\<close>

definition expectedSelfReference :: string where
  "expectedSelfReference =
     ''{'' @ quoted ''$class'' @ '':'' @ quoted ''org.acme.SimpleAssetCircle'' @ '','' @
     quoted ''assetId'' @ '':'' @ quoted ''DOGE_1'' @ '','' @
     quoted ''next'' @ '':'' @ quoted ''DOGE_1'' @ ''}''"


section \<open>Properties of the validator\<close>

lemma errorList_console_log [simp]: "errorList (console_log l st) = errorList st"
  by (simp add: console_log_def)

lemma errorList_foldl_console_log [simp]:
  "errorList (foldl (\<lambda>s err. console_log (Line err) s) st errs) = errorList st"
  by (induction errs arbitrary: st) simp_all

text \<open>
  C9. A call of \<^verbatim>\<open>validateProfile\<close> that returns without throwing leaves
  \<^verbatim>\<open>errorList\<close> empty, whatever the list held when the call began and whatever the file,
  the profile and the rules did: errors that the rules accumulated are printed and the list
  is truncated, and otherwise the list was empty already.
\<close>

theorem validateProfile_leaves_errorList_empty:
  assumes "validateProfile e filename st = (None, st')"
  shows "errorList st' = []"
  using assms
  by (auto simp: validateProfile_def Let_def
           split: sum.splits prod.splits option.splits if_splits)

theorem validateProfile_leaves_errorList_empty_witness:
  "fst (validateProfile demo_env ''connection.json'' stale_state) = None \<and>
   errorList (snd (validateProfile demo_env ''connection.json'' stale_state)) = []"
proof -
  have completes: "fst (validateProfile demo_env ''connection.json'' stale_state) = None"
    by (simp add: validateProfile_def validateInput_def loadProfile_def demo_env_def
        stale_state_def endsWith_def toLowerCase_def applyRules_def applyRule_def rules_def
        profileHasValidNameProperty_def profileHasValidXTypeProperty_def baseSectionsExist_def
        clientValidation_def orderersValidation_def ordererCheck_def getProp_def toString_def
        truthyAt_def requireObjectCoercible_def ownEntries_def regexp_test_def alphanumerics_def push_def console_log_def
        Let_def)
  then have "validateProfile demo_env ''connection.json'' stale_state =
      (None, snd (validateProfile demo_env ''connection.json'' stale_state))"
    by (simp add: prod_eq_iff)
  from validateProfile_leaves_errorList_empty [OF this] completes show ?thesis
    by simp
qed

text \<open>
  C10. On a profile object, \<^verbatim>\<open>profileHasValidNameProperty\<close> appends exactly one error
  when the object has no \<^verbatim>\<open>name\<close>, exactly one error when the name is a string with a
  character that is neither an ASCII letter nor a digit, and nothing when the name is a
  non-empty string of ASCII letters and digits.
\<close>

theorem profileHasValidNameProperty_errors:
  "(map_of kvs ''name'' = None \<longrightarrow>
      profileHasValidNameProperty e (Some (JObj kvs)) st =
        (None, st\<lparr>errorList := errorList st @ [''profile does not have a name property'']\<rparr>)) \<and>
   (map_of kvs ''name'' = Some (JStr s) \<and> (\<exists>c \<in> set s. c \<notin> set alphanumerics) \<longrightarrow>
      profileHasValidNameProperty e (Some (JObj kvs)) st =
        (None, st\<lparr>errorList := errorList st @
           [''profile name property value is not valid for Composer: '' @ s]\<rparr>)) \<and>
   (map_of kvs ''name'' = Some (JStr s) \<and> s \<noteq> [] \<and> (\<forall>c \<in> set s. c \<in> set alphanumerics) \<longrightarrow>
      profileHasValidNameProperty e (Some (JObj kvs)) st = (None, st))"
proof (intro conjI impI)
  assume "map_of kvs ''name'' = None"
  then show "profileHasValidNameProperty e (Some (JObj kvs)) st =
      (None, st\<lparr>errorList := errorList st @ [''profile does not have a name property'']\<rparr>)"
    by (simp add: profileHasValidNameProperty_def getProp_def push_def)
next
  assume bad: "map_of kvs ''name'' = Some (JStr s) \<and> (\<exists>c \<in> set s. c \<notin> set alphanumerics)"
  then have "s \<noteq> []" and "\<not> regexp_test s"
    by (auto simp: regexp_test_def list_all_iff)
  with bad show "profileHasValidNameProperty e (Some (JObj kvs)) st =
      (None, st\<lparr>errorList := errorList st @
         [''profile name property value is not valid for Composer: '' @ s]\<rparr>)"
    by (simp add: profileHasValidNameProperty_def getProp_def toString_def push_def)
next
  assume good: "map_of kvs ''name'' = Some (JStr s) \<and> s \<noteq> [] \<and>
      (\<forall>c \<in> set s. c \<in> set alphanumerics)"
  then have "regexp_test s"
    by (simp add: regexp_test_def list_all_iff)
  with good show "profileHasValidNameProperty e (Some (JObj kvs)) st = (None, st)"
    by (simp add: profileHasValidNameProperty_def getProp_def toString_def)
qed

theorem profileHasValidNameProperty_errors_witness:
  "profileHasValidNameProperty demo_env (Some (JObj [(''nonameproperty'', JStr ''test'')])) stale_state =
     (None, stale_state\<lparr>errorList := [''left over'', ''profile does not have a name property'']\<rparr>) \<and>
   profileHasValidNameProperty demo_env (Some (JObj [(''name'', JStr ''%test%'')])) stale_state =
     (None, stale_state\<lparr>errorList :=
        [''left over'', ''profile name property value is not valid for Composer: %test%'']\<rparr>) \<and>
   profileHasValidNameProperty demo_env (Some (JObj [(''name'', JStr ''my-profile'')])) stale_state =
     (None, stale_state\<lparr>errorList :=
        [''left over'', ''profile name property value is not valid for Composer: my-profile'']\<rparr>) \<and>
   profileHasValidNameProperty demo_env (Some (JObj [(''name'', JStr ''my_profile'')])) stale_state =
     (None, stale_state\<lparr>errorList :=
        [''left over'', ''profile name property value is not valid for Composer: my_profile'']\<rparr>) \<and>
   profileHasValidNameProperty demo_env (Some (JObj [(''name'', JStr ''my profile'')])) stale_state =
     (None, stale_state\<lparr>errorList :=
        [''left over'', ''profile name property value is not valid for Composer: my profile'']\<rparr>) \<and>
   profileHasValidNameProperty demo_env (Some (JObj [(''name'', JStr ''Test01'')])) stale_state =
     (None, stale_state)"
  using
    profileHasValidNameProperty_errors
      [where kvs = "[(''nonameproperty'', JStr ''test'')]" and e = demo_env and st = stale_state
         and s = "[]"]
    profileHasValidNameProperty_errors
      [where kvs = "[(''name'', JStr ''%test%'')]" and s = "''%test%''" and e = demo_env
         and st = stale_state]
    profileHasValidNameProperty_errors
      [where kvs = "[(''name'', JStr ''my-profile'')]" and s = "''my-profile''" and e = demo_env
         and st = stale_state]
    profileHasValidNameProperty_errors
      [where kvs = "[(''name'', JStr ''my_profile'')]" and s = "''my_profile''" and e = demo_env
         and st = stale_state]
    profileHasValidNameProperty_errors
      [where kvs = "[(''name'', JStr ''my profile'')]" and s = "''my profile''" and e = demo_env
         and st = stale_state]
    profileHasValidNameProperty_errors
      [where kvs = "[(''name'', JStr ''Test01'')]" and s = "''Test01''" and e = demo_env
         and st = stale_state]
  by (simp add: alphanumerics_def stale_state_def)

section \<open>Properties of the generator\<close>

declare inline.simps [simp del] visitProperty.simps [simp del] dispatch.simps [simp del]

subsection \<open>The shape of a run\<close>

lemma sequence_Inr:
  "sequence rs = Inr cs \<Longrightarrow> \<exists>xss. rs = map Inr xss \<and> cs = concat xss"
proof (induction rs arbitrary: cs)
  case Nil
  then show ?case by simp
next
  case (Cons r rs)
  then obtain xs ys where r: "r = Inr xs" and ys: "sequence rs = Inr ys" and cs: "cs = xs @ ys"
    by (auto split: sum.splits)
  from Cons.IH [OF ys] obtain xss where "rs = map Inr xss" "ys = concat xss"
    by blast
  with r cs have "r # rs = map Inr (xs # xss) \<and> cs = concat (xs # xss)"
    by simp
  then show ?case by (intro exI [of _ "xs # xss"])
qed


lemma inline_Inr:
  assumes "inline opts reg h seen inArray declNamespace declType a = Inr cs"
  obtains r where "deref h a = Some r" "getFullyQualifiedIdentifier r \<in> seen"
      "cs = [Writer (WriteStringValue
               (referenceText declNamespace (namespace r) (typeName r) (ident r)))]"
  | r decl body where "deref h a = Some r" "getFullyQualifiedIdentifier r \<notin> seen"
      "getType reg declType = Some decl"
      "sequence (map (\<lambda>pd. case fieldValue r pd of
                              None \<Rightarrow> Inr []
                            | Some v \<Rightarrow>
                                visitProperty opts reg h
                                  (insert (getFullyQualifiedIdentifier r) seen) pd v)
           (properties decl)) = Inr body"
      "cs = [SeenAdd (getFullyQualifiedIdentifier r)] @
            (if inArray then [Writer WriteComma] else []) @
            [Writer OpenObject, Writer (WriteKey ''$class''),
             Writer (WriteStringValue (getFullyQualifiedName decl))] @ body @
            [Writer CloseObject, SeenDelete (getFullyQualifiedIdentifier r)]"
  using assms unfolding inline.simps [of opts reg h seen inArray declNamespace declType a]
  by (cases "deref h a") (auto split: if_splits option.splits sum.splits)

lemma visitProperty_Inr:
  assumes "visitProperty opts reg h seen pd v = Inr cs"
  obtains body where "dispatch opts reg h seen False pd v = Inr body"
    "cs = Writer (WriteKey (name pd)) # body"
  using assms unfolding visitProperty.simps [of opts reg h seen pd v]
  by (auto split: sum.splits)

lemma dispatch_Array_Inr:
  assumes "dispatch opts reg h seen inArray pd (Array vs) = Inr cs"
  obtains body where "\<not> inArray"
    "sequence (map (dispatch opts reg h seen True pd) vs) = Inr body"
    "cs = [Writer OpenArray] @ body @ [Writer CloseArray]"
  using assms unfolding dispatch.simps [of opts reg h seen inArray pd "Array vs"]
  by (auto split: if_splits sum.splits)

lemma dispatch_Resource_Inr:
  assumes "dispatch opts reg h seen inArray pd (Resource a) = Inr cs"
  obtains t where "isRelationship pd" "\<not> permitResourcesForRelationships opts"
      "getRelationshipText opts h pd (Resource a) = Inr t"
      "cs = [Writer (if inArray then WriteArrayStringValue t else WriteStringValue t)]"
  | "\<not> (isRelationship pd \<and> \<not> permitResourcesForRelationships opts)"
      "inline opts reg h seen inArray (targetNamespace pd) (getFullyQualifiedTypeName pd) a
       = Inr cs"
  using assms unfolding dispatch.simps [of opts reg h seen inArray pd "Resource a"]
  by (auto split: if_splits sum.splits)


lemma dispatch_leaf_Inr:
  assumes "dispatch opts reg h seen inArray pd v = Inr cs"
    and "\<And>a. v \<noteq> Resource a" and "\<And>vs. v \<noteq> Array vs"
  shows "\<exists>w. cs = [Writer w] \<and> w \<noteq> OpenObject \<and> w \<noteq> CloseObject"
  using assms unfolding dispatch.simps [of opts reg h seen inArray pd v]
  by (auto split: rvalue.splits scalar.splits sum.splits)

lemma unseen_insert:
  assumes "deref h a = Some r" and "getFullyQualifiedIdentifier r \<notin> seen"
  shows "unseen h (insert (getFullyQualifiedIdentifier r) seen) < unseen h seen"
proof -
  from assms(1) have "r \<in> set h"
    by (auto simp: deref_def split: if_splits)
  with assms(2)
  have "getFullyQualifiedIdentifier ` set h - insert (getFullyQualifiedIdentifier r) seen
        \<subset> getFullyQualifiedIdentifier ` set h - seen"
    by auto
  then show ?thesis
    unfolding unseen_def by (intro psubset_card_mono) simp_all
qed

subsection \<open>The seen-set over a run\<close>






subsection \<open>Tests of the suite on single values\<close>

lemma test_serialize_a_relationship:
  "visitRelationshipDeclaration (JSONGenerator False False) modelManager [] {}
     relationshipDeclaration1 (Relationship ''org.acme'' ''MyAsset1'' ''DOGE_1'') =
   Inr [Writer (WriteKey ''myAsset''), Writer (WriteStringValue ''DOGE_1'')]"
  by code_simp

lemma test_serialize_a_resource_if_option_is_specified:
  "visitRelationshipDeclaration (JSONGenerator False True) modelManager doges {}
     relationshipDeclaration1 (Resource 0) =
   Inr [Writer (WriteKey ''myAsset''), SeenAdd ''org.acme.Doge#DOGE_1'', Writer OpenObject,
        Writer (WriteKey ''$class''), Writer (WriteStringValue ''org.acme.MyAsset1''),
        Writer CloseObject, SeenDelete ''org.acme.Doge#DOGE_1'']"
  by code_simp

lemma test_serialize_an_array_of_resources_if_option_is_specified:
  "map_sum id (\<lambda>cs. map (count_list (writerCalls cs))
       [OpenArray, WriteComma, OpenObject, CloseObject, CloseArray])
     (visitRelationshipDeclaration (JSONGenerator False True) modelManager doges {}
        relationshipDeclaration2 (Array [Resource 0, Resource 1])) =
   Inr [1, 2, 2, 2, 1]"
  by code_simp

subsection \<open>Cycles\<close>




subsection \<open>Nesting depth\<close>

lemma writerCalls_append [simp]: "writerCalls (xs @ ys) = writerCalls xs @ writerCalls ys"
  by (simp add: writerCalls_def)

lemma writerCalls_Cons [simp]:
  "writerCalls (Writer w # cs) = w # writerCalls cs"
  "writerCalls (SeenAdd f # cs) = writerCalls cs"
  "writerCalls (SeenDelete f # cs) = writerCalls cs"
  "writerCalls [] = []"
  by (simp_all add: writerCalls_def)

lemma writerCalls_concat: "writerCalls (concat xss) = concat (map writerCalls xss)"
  by (induction xss) simp_all

lemma level_append: "level d (xs @ ys) = level (level d xs) ys"
  by (induction d xs rule: level.induct) simp_all

lemma peak_ge: "d \<le> peak d ws"
  by (induction d ws rule: peak.induct) auto

lemma peak_append: "peak d (xs @ ys) = max (peak d xs) (peak (level d xs) ys)"
proof (induction d xs rule: peak.induct)
  case (1 d)
  show ?case using peak_ge [of d ys] by simp
qed (simp_all add: max.assoc)

text \<open>
  A run is balanced within a bound when it closes every object it opens and never has more
  than the bound open beyond those that were open before.
\<close>

lemma balanced_concat:
  assumes "\<And>xs. xs \<in> set xss \<Longrightarrow> \<forall>d. level d xs = d \<and> peak d xs \<le> d + n"
  shows "level d (concat xss) = d \<and> peak d (concat xss) \<le> d + n"
  using assms
proof (induction xss)
  case Nil
  show ?case by simp
next
  case (Cons xs xss)
  from Cons.prems [of xs] have "level d xs = d" and "peak d xs \<le> d + n"
    by simp_all
  moreover from Cons.IH Cons.prems have "level d (concat xss) = d \<and> peak d (concat xss) \<le> d + n"
    by simp
  ultimately show ?case
    by (simp add: level_append peak_append)
qed

lemma balanced_sequence:
  assumes "sequence rs = Inr cs"
    and "\<And>xs. Inr xs \<in> set rs \<Longrightarrow> \<forall>d. level d (writerCalls xs) = d \<and> peak d (writerCalls xs) \<le> d + n"
  shows "level d (writerCalls cs) = d \<and> peak d (writerCalls cs) \<le> d + n"
proof -
  from sequence_Inr [OF assms(1)] obtain xss where rs: "rs = map Inr xss" and cs: "cs = concat xss"
    by blast
  have "level d (concat (map writerCalls xss)) = d \<and>
      peak d (concat (map writerCalls xss)) \<le> d + n"
  proof (rule balanced_concat)
    fix ws
    assume "ws \<in> set (map writerCalls xss)"
    then obtain xs where "xs \<in> set xss" and "ws = writerCalls xs"
      by auto
    with assms(2) [of xs] rs show "\<forall>d. level d ws = d \<and> peak d ws \<le> d + n"
      by auto
  qed
  with cs show ?thesis
    by (simp add: writerCalls_concat)
qed

lemma run_balanced:
  "inline opts reg h seen inArray declNamespace declType a = Inr cs \<Longrightarrow>
     \<forall>d. level d (writerCalls cs) = d \<and> peak d (writerCalls cs) \<le> d + unseen h seen"
  "visitProperty opts reg h seen pd v = Inr cs \<Longrightarrow>
     \<forall>d. level d (writerCalls cs) = d \<and> peak d (writerCalls cs) \<le> d + unseen h seen"
  "dispatch opts reg h seen inArray pd v = Inr cs \<Longrightarrow>
     \<forall>d. level d (writerCalls cs) = d \<and> peak d (writerCalls cs) \<le> d + unseen h seen"
proof (induction opts reg h seen inArray declNamespace declType a
    and opts reg h seen pd v and opts reg h seen inArray pd v
    arbitrary: cs and cs and cs rule: inline_visitProperty_dispatch.induct)
  case (1 opts reg h seen inArray declNamespace declType a)
  from "1.prems" show ?case
  proof (cases rule: inline_Inr)
    case (1 r)
    then show ?thesis by simp
  next
    case (2 r decl body)
    let ?f = "getFullyQualifiedIdentifier r"
    let ?n = "unseen h (insert ?f seen)"
    have less: "?n < unseen h seen"
      using 2(1) 2(2) by (rule unseen_insert)
    have inner: "level d (writerCalls body) = d \<and> peak d (writerCalls body) \<le> d + ?n" for d
    proof (rule balanced_sequence [OF 2(4)])
      fix xs
      assume "Inr xs \<in> set (map (\<lambda>pd. case fieldValue r pd of
                  None \<Rightarrow> Inr []
                | Some v \<Rightarrow> visitProperty opts reg h (insert ?f seen) pd v)
                (properties decl))"
      then obtain pd where pd: "pd \<in> set (properties decl)"
        and xs: "(case fieldValue r pd of
                    None \<Rightarrow> Inr []
                  | Some v \<Rightarrow> visitProperty opts reg h (insert ?f seen) pd v) = Inr xs"
        by auto
      show "\<forall>d. level d (writerCalls xs) = d \<and> peak d (writerCalls xs) \<le> d + ?n"
      proof (cases "fieldValue r pd")
        case None
        with xs show ?thesis by (simp add: writerCalls_def)
      next
        case (Some v)
        with xs have "visitProperty opts reg h (insert ?f seen) pd v = Inr xs"
          by simp
        then show ?thesis
          by (rule "1.IH" [OF 2(1) 2(2) 2(3) pd Some])
      qed
    qed
    show ?thesis
    proof
      fix d
      from inner [of "Suc d"] less
      have "level (Suc d) (writerCalls body) = Suc d"
        and "peak (Suc d) (writerCalls body) \<le> d + unseen h seen"
        and "Suc d \<le> d + unseen h seen"
        by simp_all
      then show "level d (writerCalls cs) = d \<and> peak d (writerCalls cs) \<le> d + unseen h seen"
        unfolding 2(5) by (simp add: level_append peak_append)
    qed
  qed
next
  case (2 opts reg h seen pd v)
  from "2.prems" show ?case
  proof (cases rule: visitProperty_Inr)
    case (1 body)
    with "2.IH" [of body] show ?thesis by simp
  qed
next
  case (3 opts reg h seen inArray pd v)
  show ?case
  proof (cases v)
    case (Resource a)
    from "3.prems" [unfolded Resource] show ?thesis
    proof (cases rule: dispatch_Resource_Inr)
      case (1 t)
      then show ?thesis by (simp add: writerCalls_def)
    next
      case 2
      then show ?thesis
        using "3.IH"(1) [OF Resource] by blast
    qed
  next
    case (Array vs)
    from "3.prems" [unfolded Array] show ?thesis
    proof (cases rule: dispatch_Array_Inr)
      case (1 body)
      have "level d (writerCalls body) = d \<and> peak d (writerCalls body) \<le> d + unseen h seen"
        for d
      proof (rule balanced_sequence [OF 1(2)])
        fix xs
        assume "Inr xs \<in> set (map (dispatch opts reg h seen True pd) vs)"
        then obtain x where "x \<in> set vs" and "dispatch opts reg h seen True pd x = Inr xs"
          by auto
        then show "\<forall>d. level d (writerCalls xs) = d \<and>
            peak d (writerCalls xs) \<le> d + unseen h seen"
          by (rule "3.IH"(2) [OF Array 1(1)])
      qed
      then show ?thesis
        unfolding 1(3) by (simp add: level_append peak_append)
    qed
  next
    case (Scalar s)
    from dispatch_leaf_Inr [OF "3.prems"] Scalar obtain w where "cs = [Writer w]"
      "w \<noteq> OpenObject" "w \<noteq> CloseObject"
      by auto
    then show ?thesis by (cases w) simp_all
  next
    case (Relationship ns ty i)
    from dispatch_leaf_Inr [OF "3.prems"] Relationship obtain w where "cs = [Writer w]"
      "w \<noteq> OpenObject" "w \<noteq> CloseObject"
      by auto
    then show ?thesis by (cases w) simp_all
  next
    case (Other x)
    from dispatch_leaf_Inr [OF "3.prems"] Other obtain w where "cs = [Writer w]"
      "w \<noteq> OpenObject" "w \<noteq> CloseObject"
      by auto
    then show ?thesis by (cases w) simp_all
  qed
qed

text \<open>
  C5, as the generator has it. The seen-set only grows along a path of nested objects, and an
  identifier is in it before the properties of its resource are visited, so that a resource
  that refers to itself is written as a reference on re-entry. Every descent into a resource
  lowers the number of identifiers of the graph that are not in the set, which is the measure
  that makes the visitors terminate on every graph, and so the objects of a \<open>serialize\<close>
  call never nest deeper than the number of distinct identifiers of the graph. The number of
  times an identifier is inlined in one call has no such bound, since the identifier leaves
  the set when its object is closed.
\<close>

theorem nesting_is_bounded:
  "(serializeCalls opts reg h root = Inr cs \<longrightarrow>
      level 0 (writerCalls cs) = 0 \<and>
      peak 0 (writerCalls cs) \<le> card (getFullyQualifiedIdentifier ` set h)) \<and>
   (inline opts reg h seen inArray declNamespace declType a = Inr cs' \<longrightarrow>
      peak d (writerCalls cs') \<le> d + unseen h seen) \<and>
   (deref h a = Some r \<and> getFullyQualifiedIdentifier r \<notin> seen \<longrightarrow>
      unseen h (insert (getFullyQualifiedIdentifier r) seen) < unseen h seen) \<and>
   serialize (JSONGenerator False True) modelManager selfReference 0 = Inr expectedSelfReference"
proof (intro conjI impI)
  assume "serializeCalls opts reg h root = Inr cs"
  then obtain r where
    "inline opts reg h {} False (namespace r) (getFullyQualifiedType r) root = Inr cs"
    by (auto simp: serializeCalls_def split: option.splits)
  from run_balanced(1) [OF this]
  have "level 0 (writerCalls cs) = 0 \<and> peak 0 (writerCalls cs) \<le> 0 + unseen h {}"
    by blast
  then show "level 0 (writerCalls cs) = 0"
    and "peak 0 (writerCalls cs) \<le> card (getFullyQualifiedIdentifier ` set h)"
    by (simp_all add: unseen_def)
next
  assume "inline opts reg h seen inArray declNamespace declType a = Inr cs'"
  from run_balanced(1) [OF this] show "peak d (writerCalls cs') \<le> d + unseen h seen"
    by blast
next
  assume "deref h a = Some r \<and> getFullyQualifiedIdentifier r \<notin> seen"
  then show "unseen h (insert (getFullyQualifiedIdentifier r) seen) < unseen h seen"
    by (auto intro: unseen_insert)
next
  show "serialize (JSONGenerator False True) modelManager selfReference 0 =
      Inr expectedSelfReference"
    by code_simp
qed

theorem nesting_is_bounded_witness:
  "serializeCalls (JSONGenerator False True) modelManager circle 0 = Inr circleRun \<and>
   level 0 (writerCalls circleRun) = 0 \<and>
   peak 0 (writerCalls circleRun) \<le> card (getFullyQualifiedIdentifier ` set circle) \<and>
   peak 0 (writerCalls circleRun) = 3 \<and>
   unseen circle {''org.acme.SimpleAssetCircle#DOGE_1''} < unseen circle {}"
proof -
  have run: "serializeCalls (JSONGenerator False True) modelManager circle 0 = Inr circleRun"
    by code_simp
  have r: "deref circle 0 = Some (asset ''SimpleAssetCircle'' ''DOGE_1'' (Resource 1))"
    by (simp add: deref_def circle_def)
  have f: "getFullyQualifiedIdentifier (asset ''SimpleAssetCircle'' ''DOGE_1'' (Resource 1)) =
      ''org.acme.SimpleAssetCircle#DOGE_1''"
    by (simp add: getFullyQualifiedIdentifier_def getFullyQualifiedType_def asset_def)
  have p: "peak 0 (writerCalls circleRun) = 3"
    by (simp add: circleRun_def)
  from nesting_is_bounded
    [where opts = "JSONGenerator False True" and reg = modelManager and h = circle and root = 0
       and cs = circleRun and cs' = circleRun and a = 0 and inArray = False and seen = "{}"
       and declNamespace = "''org.acme''" and declType = "''org.acme.SimpleAssetCircle''"
       and r = "asset ''SimpleAssetCircle'' ''DOGE_1'' (Resource 1)" and d = 0]
  show ?thesis
    using run r f p by simp
qed

theorem inline_invoked_more_than_once_counterexample:
  "inlinings ''org.acme.SimpleAssetCircle#DOGE_1''
     (visitRelationshipDeclaration (JSONGenerator False True) modelManager circleArray {}
        relationshipDeclaration4 (Array [Resource 0, Resource 1, Resource 2])) = 5 \<and>
   card (getFullyQualifiedIdentifier ` set circleArray) = 3 \<and>
   inlinings ''org.acme.SimpleAssetCircleArray#DOGE_2''
     (serializeCalls (JSONGenerator False True) modelManager circleArrayTyped 0) = 2 \<and>
   card (getFullyQualifiedIdentifier ` set circleArrayTyped) = 3"
proof (intro conjI)
  show "inlinings ''org.acme.SimpleAssetCircle#DOGE_1''
     (visitRelationshipDeclaration (JSONGenerator False True) modelManager circleArray {}
        relationshipDeclaration4 (Array [Resource 0, Resource 1, Resource 2])) = 5"
    by code_simp
  show "inlinings ''org.acme.SimpleAssetCircleArray#DOGE_2''
     (serializeCalls (JSONGenerator False True) modelManager circleArrayTyped 0) = 2"
    by code_simp
  show "card (getFullyQualifiedIdentifier ` set circleArray) = 3"
    by (simp add: circleArray_def asset_def getFullyQualifiedIdentifier_def
        getFullyQualifiedType_def)
  show "card (getFullyQualifiedIdentifier ` set circleArrayTyped) = 3"
    by (simp add: circleArrayTyped_def asset_def getFullyQualifiedIdentifier_def
        getFullyQualifiedType_def)
qed

subsection \<open>Policy and resolution\<close>




text \<open>
  C3. For a relationship pointer, \<^verbatim>\<open>getRelationshipText\<close> returns the bare identifier
  when the pointer's namespace is the target namespace of the declaring property, and
  \<^verbatim>\<open>namespace.typeName#id\<close> otherwise. The result is a value computed from the
  declaration and the pointer alone: neither the options nor the heap enter it, and nothing
  is written.
\<close>

theorem getRelationshipText_of_pointer:
  "getRelationshipText opts h pd (Relationship ns ty i) =
     Inr (if ns = targetNamespace pd then i else ns @ ''.'' @ ty @ ''#'' @ i)"
  by (simp add: getRelationshipText_def referenceText_def)

theorem getRelationshipText_of_pointer_witness:
  "getRelationshipText (JSONGenerator False False) [] relationshipDeclaration1
     (Relationship ''org.acme'' ''MyAsset1'' ''DOGE_1'') = Inr ''DOGE_1'' \<and>
   getRelationshipText (JSONGenerator False False) [] relationshipDeclaration1
     (Relationship ''org.elsewhere'' ''MyAsset1'' ''DOGE_1'') =
     Inr ''org.elsewhere.MyAsset1#DOGE_1''"
  using getRelationshipText_of_pointer
    [where opts = "JSONGenerator False False" and h = "[]" and ns = "''org.acme''"
       and ty = "''MyAsset1''" and i = "''DOGE_1''" and pd = relationshipDeclaration1]
    getRelationshipText_of_pointer
    [where opts = "JSONGenerator False False" and h = "[]" and ns = "''org.elsewhere''"
       and ty = "''MyAsset1''" and i = "''DOGE_1''" and pd = relationshipDeclaration1]
  by (simp add: relationshipDeclaration1_def relationship_def)

subsection \<open>Values outside the closed set of shapes\<close>

text \<open>
  A number is a Scalar and is written; only what is none of the shapes is refused. A
  declared property that a resource does not have is no value at all and is passed over (the
  test of a resource without \<^verbatim>\<open>assetId\<close> above).
\<close>

lemma number_value_is_written:
  "dispatch opts reg h seen False pd (Scalar (Lit ''3.142'')) = Inr [Writer (WriteValue ''3.142'')]"
  by (simp add: dispatch.simps)




subsection \<open>Arrays\<close>

lemma test_serialize_an_array_of_relationships:
  "visitRelationshipDeclaration (JSONGenerator False False) modelManager [] {}
     relationshipDeclaration2
     (Array [Relationship ''org.acme'' ''MyAsset1'' ''DOGE_1'',
             Relationship ''org.acme'' ''MyAsset1'' ''DOGE_2'']) =
   Inr [Writer (WriteKey ''myAssets''), Writer OpenArray,
        Writer (WriteArrayStringValue ''DOGE_1''), Writer (WriteArrayStringValue ''DOGE_2''),
        Writer CloseArray]"
  "getBuffer [WriteKey ''myAssets'', OpenArray, WriteArrayStringValue ''DOGE_1'',
              WriteArrayStringValue ''DOGE_2'', CloseArray] =
   quoted ''myAssets'' @ '':['' @ quoted ''DOGE_1'' @ '','' @ quoted ''DOGE_2'' @ '']''"
  by code_simp+

text \<open>
  An array is written as the opening of an array, the runs of its elements in their order,
  each made by the rule for a single value, and the closing of the array.
\<close>

lemma array_run_layout:
  assumes "dispatch opts reg h seen inArray pd (Array vs) = Inr cs"
  shows "\<exists>runs. map (dispatch opts reg h seen True pd) vs = map Inr runs \<and>
    cs = [Writer OpenArray] @ concat runs @ [Writer CloseArray]"
  using assms
proof (cases rule: dispatch_Array_Inr)
  case (1 body)
  from sequence_Inr [OF 1(2)] 1(3) show ?thesis
    by blast
qed

text \<open>
  C4, where the generator departs from it. At the input of the test of a circular array the
  buffer is the one the test expects: the array is opened and closed and its elements are
  written in their order, but a back-reference is written with no separator before it, so
  that two elements in a row come out as \<^verbatim>\<open>"DOGE_1""DOGE_2"\<close> and a back-reference after
  an inlined object as \<^verbatim>\<open>}"DOGE_1"\<close>. The smallest array that shows it holds two resources
  that are both in the seen-set. Pointers are separated (the test above), and so are inlined
  objects.
\<close>

theorem circular_array_misses_separators:
  "bufferOf (visitRelationshipDeclaration (JSONGenerator False True) modelManager circleArray {}
      relationshipDeclaration4 (Array [Resource 0, Resource 1, Resource 2])) =
     Inr expectedCircleArray \<and>
   bufferOf (dispatch (JSONGenerator False True) modelManager circleArray
      {''org.acme.SimpleAssetCircle#DOGE_1'', ''org.acme.SimpleAssetCircle#DOGE_2''}
      False relationshipDeclaration4 (Array [Resource 0, Resource 1])) =
     Inr (''['' @ quoted ''DOGE_1'' @ quoted ''DOGE_2'' @ '']'')"
proof
  show "bufferOf (visitRelationshipDeclaration (JSONGenerator False True) modelManager
      circleArray {} relationshipDeclaration4 (Array [Resource 0, Resource 1, Resource 2])) =
      Inr expectedCircleArray"
    by code_simp
  show "bufferOf (dispatch (JSONGenerator False True) modelManager circleArray
      {''org.acme.SimpleAssetCircle#DOGE_1'', ''org.acme.SimpleAssetCircle#DOGE_2''}
      False relationshipDeclaration4 (Array [Resource 0, Resource 1])) =
      Inr (''['' @ quoted ''DOGE_1'' @ quoted ''DOGE_2'' @ '']'')"
    by code_simp
qed

subsection \<open>What a run depends on\<close>






subsection \<open>The layout of an inlined object\<close>




subsection \<open>What a call leaves behind, and what its text depends on\<close>






end
